theory Spec2Isabelle
  imports Main "HOL-Library.Word"
begin

section \<open>Strings: \<open>str.lower\<close> and \<open>str.endswith\<close>\<close>

text \<open>
  A path is a \<open>string\<close>, one \<open>char\<close> per code point below 256. On these code points
  Python's \<open>str.lower\<close> moves \<open>A..Z\<close> and the Latin-1 capitals (192..222 without the
  multiplication sign 215) up by 32 and leaves everything else alone.
\<close>

definition lower_char :: "char \<Rightarrow> char" where
  "lower_char c =
     (let n = (of_char c :: nat)
      in if (65 \<le> n \<and> n \<le> 90) \<or> (192 \<le> n \<and> n \<le> 222 \<and> n \<noteq> 215)
         then char_of (n + 32) else c)"

definition lower :: "string \<Rightarrow> string" where
  "lower s = map lower_char s"

text \<open>\<open>s.endswith(suf)\<close> for one suffix, and for a tuple of suffixes (any of them).\<close>

definition endswith1 :: "string \<Rightarrow> string \<Rightarrow> bool" where
  "endswith1 s suf = (length suf \<le> length s \<and> drop (length s - length suf) s = suf)"

definition endswith :: "string \<Rightarrow> string list \<Rightarrow> bool" where
  "endswith s sufs = list_ex (endswith1 s) sufs"

section \<open>Values exchanged with the libraries\<close>

text \<open>Parsed JSON, as \<open>json.loads\<close> gives it and as the request body is built.\<close>

datatype json =
    JNull
  | JBool bool
  | JNum int
  | JStr string
  | JArr "json list"
  | JObj "(string \<times> json) list"

text \<open>
  Every exception the script can meet. \<open>FrameExtractionError\<close> is the
  \<open>Exception("Could not extract frame!")\<close> of \<open>extract_middle_frame\<close>; \<open>RemoteServiceError\<close>
  is whatever \<open>invoke_model\<close>, reading the body or \<open>json.loads\<close> raises; the next three come
  from the subscripts of \<open>bedrock_generate\<close> and of \<open>id2label\<close>; \<open>ImageOpenError\<close> is raised by
  \<open>Image.open\<close>, \<open>ClassifierError\<close> by the image processor or the model, and \<open>Cv2Error\<close>
  by \<open>cv2.cvtColor\<close> when it is handed no array.
\<close>

datatype error =
    FrameExtractionError
  | RemoteServiceError string
  | KeyError
  | IndexError
  | TypeError
  | ImageOpenError string
  | ClassifierError string
  | Cv2Error

text \<open>
  A decoded video frame is an array of rows of three-channel \<open>uint8\<close> pixels. A PIL image
  carries its mode string and, per pixel, the list of its bands.
\<close>

type_synonym pixel = "8 word \<times> 8 word \<times> 8 word"
type_synonym ndarray = "pixel list list"

record image =
  mode :: string
  bands :: "8 word list list list"

record request =
  modelId :: string
  body :: json
  accept :: string
  contentType :: string

text \<open>What \<open>print\<close> writes, one constructor per call site of \<open>process_file\<close>.\<close>

datatype printed =
    ProcessingImage
  | ProcessingVideo
  | UnsupportedFile
  | DetectedTheme string
  | Captions json
  | Hashtags json

datatype event =
    Print printed
  | Input
  | ImageOpen string
  | VideoCapture nat string
  | CapGetFrameCount nat
  | CapSetPosFrames nat int
  | CapRead nat
  | CapRelease nat
  | Classify image
  | InvokeModel request

section \<open>The environment and the state of a run\<close>

text \<open>
  The files, the pretrained model and the remote service are parameters:
  \<open>image_open p\<close> is the result of \<open>Image.open(p)\<close>; \<open>frame_count p\<close> is
  \<open>int(cap.get(CAP_PROP_FRAME_COUNT))\<close> for a capture of \<open>p\<close>; \<open>decode p i\<close> is the frame
  \<open>cap.read()\<close> yields at position \<open>i\<close> of \<open>p\<close> (\<open>None\<close> when it reports failure);
  \<open>predict img\<close> is the arg-max class index of the model's logits; \<open>id2label\<close> is the
  model's label table; \<open>invoke r\<close> is the parsed body of the response to request \<open>r\<close>;
  \<open>stdin_line\<close> is the line \<open>input\<close> reads.
\<close>

record world =
  image_open :: "string \<Rightarrow> error + image"
  frame_count :: "string \<Rightarrow> int"
  decode :: "string \<Rightarrow> int \<Rightarrow> ndarray option"
  predict :: "image \<Rightarrow> error + nat"
  id2label :: "nat \<Rightarrow> string option"
  invoke :: "request \<Rightarrow> error + json"
  stdin_line :: string

record capture =
  cap_path :: string
  cap_pos :: int

record state =
  events :: "event list"
  caps :: "nat \<Rightarrow> capture option"
  next_cap :: nat

definition emit :: "event \<Rightarrow> state \<Rightarrow> state" where
  "emit e s = s\<lparr>events := events s @ [e]\<rparr>"


section \<open>The library calls\<close>

subsection \<open>OpenCV: a capture handle is an entry of the store\<close>

definition cv2_VideoCapture :: "string \<Rightarrow> state \<Rightarrow> nat \<times> state" where
  "cv2_VideoCapture video_path s =
     (let cap = next_cap s
      in (cap, (emit (VideoCapture cap video_path) s)
                 \<lparr>caps := (caps s)(cap \<mapsto> \<lparr>cap_path = video_path, cap_pos = 0\<rparr>),
                  next_cap := Suc cap\<rparr>))"

definition cap_get_frame_count :: "world \<Rightarrow> nat \<Rightarrow> state \<Rightarrow> int \<times> state" where
  "cap_get_frame_count w cap s =
     ((case caps s cap of None \<Rightarrow> 0 | Some c \<Rightarrow> frame_count w (cap_path c)),
      emit (CapGetFrameCount cap) s)"

definition cap_set_pos_frames :: "nat \<Rightarrow> int \<Rightarrow> state \<Rightarrow> state" where
  "cap_set_pos_frames cap i s =
     (let s1 = emit (CapSetPosFrames cap i) s
      in case caps s cap of
           None \<Rightarrow> s1
         | Some c \<Rightarrow> s1\<lparr>caps := (caps s)(cap \<mapsto> c\<lparr>cap_pos := i\<rparr>)\<rparr>)"

definition cap_read :: "world \<Rightarrow> nat \<Rightarrow> state \<Rightarrow> (bool \<times> ndarray option) \<times> state" where
  "cap_read w cap s =
     (let s1 = emit (CapRead cap) s
      in case caps s cap of
           None \<Rightarrow> ((False, None), s1)
         | Some c \<Rightarrow>
             (case decode w (cap_path c) (cap_pos c) of
                None \<Rightarrow> ((False, None), s1)
              | Some frame \<Rightarrow>
                  ((True, Some frame),
                   s1\<lparr>caps := (caps s)(cap \<mapsto> c\<lparr>cap_pos := cap_pos c + 1\<rparr>)\<rparr>)))"

definition cap_release :: "nat \<Rightarrow> state \<Rightarrow> state" where
  "cap_release cap s = (emit (CapRelease cap) s)\<lparr>caps := (caps s)(cap := None)\<rparr>"

text \<open>\<open>cv2.cvtColor(frame, cv2.COLOR_BGR2RGB)\<close> exchanges the first and the third channel.\<close>

definition cvtColor_BGR2RGB :: "ndarray \<Rightarrow> ndarray" where
  "cvtColor_BGR2RGB frame = map (map (\<lambda>(c0, c1, c2). (c2, c1, c0))) frame"

subsection \<open>PIL\<close>

text \<open>\<open>Image.fromarray\<close> on a three-channel \<open>uint8\<close> array: mode RGB, the bands as stored.\<close>

definition Image_fromarray :: "ndarray \<Rightarrow> image" where
  "Image_fromarray frame =
     \<lparr>mode = ''RGB'', bands = map (map (\<lambda>(c0, c1, c2). [c0, c1, c2])) frame\<rparr>"

definition Image_open :: "world \<Rightarrow> string \<Rightarrow> state \<Rightarrow> (error + image) \<times> state" where
  "Image_open w path s = (image_open w path, emit (ImageOpen path) s)"

subsection \<open>Subscripts on parsed JSON\<close>

text \<open>
  \<open>d[k]\<close> for a string \<open>k\<close>: a dict looks the key up (of a repeated key \<open>json.loads\<close> keeps
  the last value), a list or a string refuses a string index, anything else is not
  subscriptable.
\<close>

fun getitem_key :: "json \<Rightarrow> string \<Rightarrow> error + json" where
  "getitem_key (JObj kvs) k = (case map_of (rev kvs) k of None \<Rightarrow> Inl KeyError | Some v \<Rightarrow> Inr v)"
| "getitem_key _ k = Inl TypeError"

text \<open>\<open>d[0]\<close>: the first element of a list or string; a parsed dict has string keys only.\<close>

fun getitem_0 :: "json \<Rightarrow> error + json" where
  "getitem_0 (JArr []) = Inl IndexError"
| "getitem_0 (JArr (x # xs)) = Inr x"
| "getitem_0 (JStr []) = Inl IndexError"
| "getitem_0 (JStr (c # cs)) = Inr (JStr [c])"
| "getitem_0 (JObj kvs) = Inl KeyError"
| "getitem_0 _ = Inl TypeError"

definition and_then :: "error + 'a \<Rightarrow> ('a \<Rightarrow> error + 'b) \<Rightarrow> error + 'b" where
  "and_then r f = (case r of Inl e \<Rightarrow> Inl e | Inr v \<Rightarrow> f v)"


section \<open>The script\<close>

subsection \<open>\<open>bedrock_generate\<close>\<close>

definition request_body :: "string \<Rightarrow> json" where
  "request_body prompt =
     JObj [(''messages'',
            JArr [JObj [(''role'', JStr ''user''),
                        (''content'', JArr [JObj [(''text'', JStr prompt)]])]])]"

definition nova_request :: "string \<Rightarrow> request" where
  "nova_request prompt =
     \<lparr>modelId = ''amazon.nova-lite-v1:0'', body = request_body prompt,
      accept = ''application/json'', contentType = ''application/json''\<rparr>"

text \<open>\<open>data["output"]["message"]["content"][0]["text"]\<close>\<close>

definition response_text :: "json \<Rightarrow> error + json" where
  "response_text data =
     and_then (getitem_key data ''output'') (\<lambda>out.
     and_then (getitem_key out ''message'') (\<lambda>msg.
     and_then (getitem_key msg ''content'') (\<lambda>content.
     and_then (getitem_0 content) (\<lambda>seg.
     getitem_key seg ''text''))))"

definition bedrock_generate :: "world \<Rightarrow> string \<Rightarrow> state \<Rightarrow> (error + json) \<times> state" where
  "bedrock_generate w prompt s =
     (let req = nova_request prompt;
          s1 = emit (InvokeModel req) s
      in (and_then (invoke w req) response_text, s1))"

subsection \<open>\<open>classify_image\<close>\<close>

definition classify_image :: "world \<Rightarrow> image \<Rightarrow> state \<Rightarrow> (error + string) \<times> state" where
  "classify_image w pil_img s =
     (let s1 = emit (Classify pil_img) s
      in (and_then (predict w pil_img)
            (\<lambda>pred. case id2label w pred of None \<Rightarrow> Inl KeyError | Some l \<Rightarrow> Inr l),
          s1))"

subsection \<open>\<open>extract_middle_frame\<close>\<close>

definition extract_middle_frame :: "world \<Rightarrow> string \<Rightarrow> state \<Rightarrow> (error + image) \<times> state" where
  "extract_middle_frame w video_path s =
     (case cv2_VideoCapture video_path s of (cap, s1) \<Rightarrow>
       (case cap_get_frame_count w cap s1 of (total_frames, s2) \<Rightarrow>
         (let mid = total_frames div 2;
              s3 = cap_set_pos_frames cap mid s2
          in (case cap_read w cap s3 of ((success, frame), s4) \<Rightarrow>
               (let s5 = cap_release cap s4
                in if \<not> success then (Inl FrameExtractionError, s5)
                   else (case frame of
                           None \<Rightarrow> (Inl Cv2Error, s5)
                         | Some fr \<Rightarrow> (Inr (Image_fromarray (cvtColor_BGR2RGB fr)), s5)))))))"

subsection \<open>\<open>generate_caption_and_hashtags\<close>\<close>

definition caption_prompt :: "string \<Rightarrow> string" where
  "caption_prompt theme =
     ''\<newline>Generate 3 Instagram captions for: '' @ theme @
     ''\<newline>\<newline>1. Aesthetic (under 12 words)\<newline>2. Funny (under 12 words)\<newline>3. Influencer style (under 12 words)\<newline>''"

definition hashtags_prompt :: "string \<Rightarrow> string" where
  "hashtags_prompt theme =
     ''\<newline>Generate 15 Instagram hashtags for '' @ theme @
     ''.\<newline>Rules:\<newline>- lowercase\<newline>- no spaces\<newline>- comma separated\<newline>''"

definition generate_caption_and_hashtags ::
    "world \<Rightarrow> string \<Rightarrow> state \<Rightarrow> (error + json \<times> json) \<times> state" where
  "generate_caption_and_hashtags w theme s =
     (case bedrock_generate w (caption_prompt theme) s of
        (Inl e, s1) \<Rightarrow> (Inl e, s1)
      | (Inr captions, s1) \<Rightarrow>
          (case bedrock_generate w (hashtags_prompt theme) s1 of
             (Inl e, s2) \<Rightarrow> (Inl e, s2)
           | (Inr hashtags, s2) \<Rightarrow> (Inr (captions, hashtags), s2)))"

subsection \<open>\<open>process_file\<close>\<close>

text \<open>Lines 122 to 127, which both accepted branches run once they hold a label.\<close>

definition report :: "world \<Rightarrow> string \<Rightarrow> state \<Rightarrow> (error + unit) \<times> state" where
  "report w label s =
     (let s1 = emit (Print (DetectedTheme label)) s
      in case generate_caption_and_hashtags w label s1 of
           (Inl e, s2) \<Rightarrow> (Inl e, s2)
         | (Inr (captions, hashtags), s2) \<Rightarrow>
             (Inr (), emit (Print (Hashtags hashtags)) (emit (Print (Captions captions)) s2)))"

definition classify_and_report :: "world \<Rightarrow> image \<Rightarrow> state \<Rightarrow> (error + unit) \<times> state" where
  "classify_and_report w img s =
     (case classify_image w img s of
        (Inl e, s1) \<Rightarrow> (Inl e, s1)
      | (Inr label, s1) \<Rightarrow> report w label s1)"

definition process_file :: "world \<Rightarrow> string \<Rightarrow> state \<Rightarrow> (error + unit) \<times> state" where
  "process_file w path s =
     (if endswith (lower path) [''.jpg'', ''.jpeg'', ''.png''] then
        (case Image_open w path (emit (Print ProcessingImage) s) of
           (Inl e, s1) \<Rightarrow> (Inl e, s1)
         | (Inr img, s1) \<Rightarrow> classify_and_report w img s1)
      else if endswith (lower path) [''.mp4'', ''.mov'', ''.mkv''] then
        (case extract_middle_frame w path (emit (Print ProcessingVideo) s) of
           (Inl e, s1) \<Rightarrow> (Inl e, s1)
         | (Inr img, s1) \<Rightarrow> classify_and_report w img s1)
      else (Inr (), emit (Print UnsupportedFile) s))"

subsection \<open>The script's entry point\<close>

definition main :: "world \<Rightarrow> state \<Rightarrow> (error + unit) \<times> state" where
  "main w s = process_file w (stdin_line w) (emit Input s)"


section \<open>Derived notions used to state the properties\<close>

text \<open>The value \<open>bedrock_generate\<close> returns for a prompt, and the label \<open>classify_image\<close> returns.\<close>

definition answer :: "world \<Rightarrow> string \<Rightarrow> error + json" where
  "answer w prompt = and_then (invoke w (nova_request prompt)) response_text"

definition top1 :: "world \<Rightarrow> image \<Rightarrow> error + string" where
  "top1 w img =
     and_then (predict w img)
       (\<lambda>pred. case id2label w pred of None \<Rightarrow> Inl KeyError | Some l \<Rightarrow> Inr l)"

text \<open>The events \<open>report\<close> and \<open>classify_and_report\<close> append (proved below).\<close>

definition report_events :: "world \<Rightarrow> string \<Rightarrow> event list" where
  "report_events w label =
     Print (DetectedTheme label) # InvokeModel (nova_request (caption_prompt label)) #
     (case answer w (caption_prompt label) of
        Inl e \<Rightarrow> []
      | Inr c \<Rightarrow>
          InvokeModel (nova_request (hashtags_prompt label)) #
          (case answer w (hashtags_prompt label) of
             Inl e \<Rightarrow> []
           | Inr h \<Rightarrow> [Print (Captions c), Print (Hashtags h)]))"

definition classify_events :: "world \<Rightarrow> image \<Rightarrow> event list" where
  "classify_events w img =
     Classify img # (case top1 w img of Inl e \<Rightarrow> [] | Inr label \<Rightarrow> report_events w label)"

text \<open>What they return.\<close>

definition report_outcome :: "world \<Rightarrow> string \<Rightarrow> error + unit" where
  "report_outcome w label =
     (case answer w (caption_prompt label) of
        Inl e \<Rightarrow> Inl e
      | Inr c \<Rightarrow> (case answer w (hashtags_prompt label) of Inl e \<Rightarrow> Inl e | Inr h \<Rightarrow> Inr ()))"

definition classify_outcome :: "world \<Rightarrow> image \<Rightarrow> error + unit" where
  "classify_outcome w img =
     (case top1 w img of Inl e \<Rightarrow> Inl e | Inr label \<Rightarrow> report_outcome w label)"

fun is_capture_event :: "event \<Rightarrow> bool" where
  "is_capture_event (VideoCapture cap p) = True"
| "is_capture_event (CapGetFrameCount cap) = True"
| "is_capture_event (CapSetPosFrames cap i) = True"
| "is_capture_event (CapRead cap) = True"
| "is_capture_event (CapRelease cap) = True"
| "is_capture_event _ = False"

fun is_invoke :: "event \<Rightarrow> bool" where
  "is_invoke (InvokeModel r) = True"
| "is_invoke _ = False"

fun is_classify :: "event \<Rightarrow> bool" where
  "is_classify (Classify img) = True"
| "is_classify _ = False"

text \<open>The events a call appended, given the state before it and the state after it.\<close>

definition new_events :: "state \<Rightarrow> state \<Rightarrow> event list" where
  "new_events s s' = drop (length (events s)) (events s')"

text \<open>
  The response body of the text service as the interface describes it: a message whose
  content is a list of text segments, beside a stop reason and a usage record.
\<close>

definition nova_response :: "string list \<Rightarrow> string \<Rightarrow> json \<Rightarrow> json" where
  "nova_response segments stop usage =
     JObj [(''output'',
            JObj [(''message'',
                   JObj [(''content'', JArr (map (\<lambda>t. JObj [(''text'', JStr t)]) segments)),
                         (''role'', JStr ''assistant'')])]),
           (''stopReason'', JStr stop),
           (''usage'', usage)]"

subsection \<open>Concrete runs\<close>

definition init :: state where
  "init = \<lparr>events = [], caps = (\<lambda>cap. None), next_cap = 0\<rparr>"

definition beach_img :: image where
  "beach_img = \<lparr>mode = ''RGB'', bands = [[[200, 180, 140], [30, 120, 220]]]\<rparr>"

definition clip_frame :: ndarray where
  "clip_frame = [[(220, 120, 30), (140, 180, 200)]]"

definition scenario_world :: world where
  "scenario_world =
     \<lparr>image_open = (\<lambda>p. if p = ''beach.jpg'' then Inr beach_img else Inl (ImageOpenError p)),
      frame_count = (\<lambda>p. if p = ''clip.MP4'' then 100 else 0),
      decode = (\<lambda>p i. if p = ''clip.MP4'' \<and> 0 \<le> i \<and> i < 100 then Some clip_frame else None),
      predict = (\<lambda>img. Inr 978),
      id2label = (\<lambda>k. if k = 978 then Some ''seashore'' else None),
      invoke = (\<lambda>r. if r = nova_request (caption_prompt ''seashore'')
                     then Inr (nova_response [''1. Salt air, soft light.''] ''end_turn'' JNull)
                     else if r = nova_request (hashtags_prompt ''seashore'')
                     then Inr (nova_response [''#seashore,#waves'', ''extra''] ''end_turn'' JNull)
                     else Inl (RemoteServiceError ''ValidationException'')),
      stdin_line = ''beach.jpg''\<rparr>"

text \<open>The same files with the text service unreachable.\<close>

definition offline_world :: world where
  "offline_world =
     scenario_world\<lparr>invoke := (\<lambda>r. Inl (RemoteServiceError ''EndpointConnectionError''))\<rparr>"

text \<open>A stream without a frame count in its header: the count reads 0, frame 0 decodes.\<close>

definition headerless_world :: world where
  "headerless_world =
     scenario_world\<lparr>frame_count := (\<lambda>p. 0),
                    decode := (\<lambda>p i. if i = 0 then Some clip_frame else None)\<rparr>"

text \<open>A JPEG stored in CMYK, which \<open>Image.open\<close> loads in mode CMYK.\<close>

definition cmyk_img :: image where
  "cmyk_img = \<lparr>mode = ''CMYK'', bands = [[[0, 255, 255, 0]]]\<rparr>"

definition cmyk_world :: world where
  "cmyk_world = scenario_world\<lparr>image_open := (\<lambda>p. Inr cmyk_img)\<rparr>"

section \<open>Basic facts about the calls\<close>

lemma events_emit: "events (emit e s) = events s @ [e]"
  and caps_emit: "caps (emit e s) = caps s"
  and next_cap_emit: "next_cap (emit e s) = next_cap s"
  by (simp_all add: emit_def)

lemmas capture_defs =
  extract_middle_frame_def cv2_VideoCapture_def cap_get_frame_count_def
  cap_set_pos_frames_def cap_read_def cap_release_def Let_def
  events_emit caps_emit next_cap_emit

lemma extract_middle_frame_result:
  "fst (extract_middle_frame w p s) =
     (case decode w p (frame_count w p div 2) of
        None \<Rightarrow> Inl FrameExtractionError
      | Some fr \<Rightarrow> Inr (Image_fromarray (cvtColor_BGR2RGB fr)))"
  by (simp add: capture_defs split: option.splits)

lemma extract_middle_frame_events:
  "events (snd (extract_middle_frame w p s)) =
     events s @ [VideoCapture (next_cap s) p, CapGetFrameCount (next_cap s),
                 CapSetPosFrames (next_cap s) (frame_count w p div 2),
                 CapRead (next_cap s), CapRelease (next_cap s)]"
  by (simp add: capture_defs split: option.splits)

lemma extract_middle_frame_caps:
  "caps (snd (extract_middle_frame w p s)) = (caps s)(next_cap s := None)"
  by (simp add: capture_defs split: option.splits)

lemma bedrock_generate_eq:
  "bedrock_generate w prompt s = (answer w prompt, emit (InvokeModel (nova_request prompt)) s)"
  by (simp add: bedrock_generate_def answer_def Let_def)

lemma classify_image_eq:
  "classify_image w img s = (top1 w img, emit (Classify img) s)"
  by (simp add: classify_image_def top1_def Let_def)

lemma generate_result:
  "fst (generate_caption_and_hashtags w theme s) =
     (case answer w (caption_prompt theme) of
        Inl e \<Rightarrow> Inl e
      | Inr c \<Rightarrow> (case answer w (hashtags_prompt theme) of Inl e \<Rightarrow> Inl e | Inr h \<Rightarrow> Inr (c, h)))"
  by (simp add: generate_caption_and_hashtags_def bedrock_generate_eq split: sum.splits)

lemma generate_events:
  "events (snd (generate_caption_and_hashtags w theme s)) =
     events s @ InvokeModel (nova_request (caption_prompt theme)) #
     (case answer w (caption_prompt theme) of
        Inl e \<Rightarrow> []
      | Inr c \<Rightarrow> [InvokeModel (nova_request (hashtags_prompt theme))])"
  by (simp add: generate_caption_and_hashtags_def bedrock_generate_eq events_emit split: sum.splits)

lemma report_result: "fst (report w label s) = report_outcome w label"
  by (simp add: report_def report_outcome_def generate_caption_and_hashtags_def
      bedrock_generate_eq Let_def split: sum.splits)

lemma report_trace:
  "events (snd (report w label s)) = events s @ report_events w label"
  by (simp add: report_def report_events_def generate_caption_and_hashtags_def
      bedrock_generate_eq events_emit Let_def split: sum.splits)

lemma classify_and_report_result:
  "fst (classify_and_report w img s) = classify_outcome w img"
  by (simp add: classify_and_report_def classify_image_eq classify_outcome_def report_result
      split: sum.splits)

lemma classify_and_report_trace:
  "events (snd (classify_and_report w img s)) = events s @ classify_events w img"
  by (simp add: classify_and_report_def classify_image_eq classify_events_def report_trace
      events_emit split: sum.splits)

section \<open>The three branches of \<open>process_file\<close>\<close>

lemma endswith1_last: "endswith1 s suf \<Longrightarrow> suf \<noteq> [] \<Longrightarrow> last s = last suf"
  unfolding endswith1_def
  by (metis diff_less last_drop length_greater_0_conv less_le_trans)

lemma video_not_image:
  assumes "endswith s [''.mp4'', ''.mov'', ''.mkv'']"
  shows "\<not> endswith s [''.jpg'', ''.jpeg'', ''.png'']"
  using assms unfolding endswith_def
  by (auto dest!: endswith1_last)

lemma process_file_image_trace:
  assumes "endswith (lower path) [''.jpg'', ''.jpeg'', ''.png'']"
  shows "events (snd (process_file w path s)) =
           events s @ Print ProcessingImage # ImageOpen path #
           (case image_open w path of Inl e \<Rightarrow> [] | Inr img \<Rightarrow> classify_events w img)"
  using assms
  by (simp add: process_file_def Image_open_def events_emit classify_and_report_trace
      split: sum.splits)

lemma process_file_image_result:
  assumes "endswith (lower path) [''.jpg'', ''.jpeg'', ''.png'']"
  shows "fst (process_file w path s) =
           (case image_open w path of
              Inl e \<Rightarrow> Inl e
            | Inr img \<Rightarrow> classify_outcome w img)"
  using assms
  by (simp add: process_file_def Image_open_def classify_and_report_result
      split: sum.splits)

lemma process_file_video_trace:
  assumes "endswith (lower path) [''.mp4'', ''.mov'', ''.mkv'']"
  shows "events (snd (process_file w path s)) =
           events s @ [Print ProcessingVideo, VideoCapture (next_cap s) path,
                       CapGetFrameCount (next_cap s),
                       CapSetPosFrames (next_cap s) (frame_count w path div 2),
                       CapRead (next_cap s), CapRelease (next_cap s)] @
           (case decode w path (frame_count w path div 2) of
              None \<Rightarrow> []
            | Some fr \<Rightarrow> classify_events w (Image_fromarray (cvtColor_BGR2RGB fr)))"
proof -
  let ?s1 = "emit (Print ProcessingVideo) s"
  obtain r s2 where ex: "extract_middle_frame w path ?s1 = (r, s2)"
    by (cases "extract_middle_frame w path ?s1")
  have r: "r = (case decode w path (frame_count w path div 2) of
                  None \<Rightarrow> Inl FrameExtractionError
                | Some fr \<Rightarrow> Inr (Image_fromarray (cvtColor_BGR2RGB fr)))"
    using extract_middle_frame_result [of w path ?s1] ex by simp
  have e: "events s2 = events s @ [Print ProcessingVideo, VideoCapture (next_cap s) path,
                       CapGetFrameCount (next_cap s),
                       CapSetPosFrames (next_cap s) (frame_count w path div 2),
                       CapRead (next_cap s), CapRelease (next_cap s)]"
    using extract_middle_frame_events [of w path ?s1] ex by (simp add: events_emit next_cap_emit)
  show ?thesis
    using assms video_not_image [OF assms]
    by (simp add: process_file_def ex r e classify_and_report_trace split: option.splits)
qed

lemma process_file_video_result:
  assumes "endswith (lower path) [''.mp4'', ''.mov'', ''.mkv'']"
  shows "fst (process_file w path s) =
           (case decode w path (frame_count w path div 2) of
              None \<Rightarrow> Inl FrameExtractionError
            | Some fr \<Rightarrow> classify_outcome w (Image_fromarray (cvtColor_BGR2RGB fr)))"
proof -
  let ?s1 = "emit (Print ProcessingVideo) s"
  obtain r s2 where ex: "extract_middle_frame w path ?s1 = (r, s2)"
    by (cases "extract_middle_frame w path ?s1")
  have r: "r = (case decode w path (frame_count w path div 2) of
                  None \<Rightarrow> Inl FrameExtractionError
                | Some fr \<Rightarrow> Inr (Image_fromarray (cvtColor_BGR2RGB fr)))"
    using extract_middle_frame_result [of w path ?s1] ex by simp
  show ?thesis
    using assms video_not_image [OF assms]
    by (simp add: process_file_def ex r classify_and_report_result
        split: option.splits)
qed

lemma process_file_unsupported:
  assumes "\<not> endswith (lower path) [''.jpg'', ''.jpeg'', ''.png'']"
      and "\<not> endswith (lower path) [''.mp4'', ''.mov'', ''.mkv'']"
  shows "process_file w path s = (Inr (), emit (Print UnsupportedFile) s)"
  using assms by (simp add: process_file_def)

lemma classify_events_shape:
  "\<exists>rest. classify_events w img = Classify img # rest \<and> \<not> list_ex is_classify rest
          \<and> \<not> list_ex is_capture_event rest"
  by (simp add: classify_events_def report_events_def split: sum.splits)

section \<open>Dispatch on the file extension\<close>

text \<open>
  Claim C1. A path whose lowercased form ends in \<open>.jpg\<close>, \<open>.jpeg\<close> or \<open>.png\<close> is loaded
  with \<open>Image.open\<close>: the run prints the image notice, opens the file, and touches no video
  capture at all. When the load succeeds the loaded image, unchanged, is what
  \<open>classify_image\<close> receives, and nothing else is classified; when the load raises, the
  run ends with that error.
\<close>

theorem image_path_loads_directly:
  assumes "endswith (lower path) [''.jpg'', ''.jpeg'', ''.png'']"
  shows "\<exists>rest. events (snd (process_file w path s)) =
                  events s @ Print ProcessingImage # ImageOpen path # rest
              \<and> \<not> list_ex is_capture_event rest
              \<and> (case image_open w path of
                    Inl e \<Rightarrow> rest = [] \<and> fst (process_file w path s) = Inl e
                  | Inr img \<Rightarrow> \<exists>rest'. rest = Classify img # rest' \<and> \<not> list_ex is_classify rest')"
proof (cases "image_open w path")
  case (Inl e)
  then show ?thesis
    using assms by (simp add: process_file_image_trace process_file_image_result)
next
  case (Inr img)
  obtain rest' where r: "classify_events w img = Classify img # rest'"
      "\<not> list_ex is_classify rest'" "\<not> list_ex is_capture_event rest'"
    using classify_events_shape by blast
  show ?thesis
    using assms Inr r by (simp add: process_file_image_trace)
qed

theorem image_path_loads_directly_witness:
  "endswith (lower ''beach.jpg'') [''.jpg'', ''.jpeg'', ''.png'']
   \<and> image_open scenario_world ''beach.jpg'' = Inr beach_img
   \<and> (\<exists>rest'. events (snd (process_file scenario_world ''beach.jpg'' init)) =
                 [Print ProcessingImage, ImageOpen ''beach.jpg'', Classify beach_img] @ rest'
               \<and> \<not> list_ex is_capture_event rest')"
proof -
  have h: "endswith (lower ''beach.jpg'') [''.jpg'', ''.jpeg'', ''.png'']"
    by code_simp
  have o: "image_open scenario_world ''beach.jpg'' = Inr beach_img"
    by (simp add: scenario_world_def)
  have i: "events init = []"
    by (simp add: init_def)
  from image_path_loads_directly [OF h, of scenario_world init] o i
  show ?thesis using h by auto
qed

text \<open>
  Claim C2. A path whose lowercased form ends in \<open>.mp4\<close>, \<open>.mov\<close> or \<open>.mkv\<close> goes to
  \<open>extract_middle_frame\<close> on that very path: after the video notice the run opens a capture
  of the path, reads the count, seeks, reads and releases. The frame that call returns is
  then handed to \<open>classify_image\<close>, as the first event after the release, so no request to
  the text service precedes it; when the extraction raises, the run ends with that error and
  nothing is classified.
\<close>

theorem video_path_extracts_then_classifies:
  assumes "endswith (lower path) [''.mp4'', ''.mov'', ''.mkv'']"
  shows "\<exists>rest. events (snd (process_file w path s)) =
                  events s @ [Print ProcessingVideo, VideoCapture (next_cap s) path,
                              CapGetFrameCount (next_cap s),
                              CapSetPosFrames (next_cap s) (frame_count w path div 2),
                              CapRead (next_cap s), CapRelease (next_cap s)] @ rest
              \<and> (case fst (extract_middle_frame w path (emit (Print ProcessingVideo) s)) of
                    Inl e \<Rightarrow> rest = [] \<and> fst (process_file w path s) = Inl e
                  | Inr img \<Rightarrow> \<exists>rest'. rest = Classify img # rest' \<and> \<not> list_ex is_classify rest')"
proof (cases "decode w path (frame_count w path div 2)")
  case None
  then show ?thesis
    using assms
    by (simp add: process_file_video_trace process_file_video_result extract_middle_frame_result)
next
  case (Some fr)
  obtain rest' where r:
      "classify_events w (Image_fromarray (cvtColor_BGR2RGB fr)) =
         Classify (Image_fromarray (cvtColor_BGR2RGB fr)) # rest'"
      "\<not> list_ex is_classify rest'"
    using classify_events_shape by blast
  show ?thesis
    using assms Some r
    by (simp add: process_file_video_trace extract_middle_frame_result)
qed

theorem video_path_extracts_then_classifies_witness:
  "endswith (lower ''clip.MP4'') [''.mp4'', ''.mov'', ''.mkv'']
   \<and> frame_count scenario_world ''clip.MP4'' = 100
   \<and> (\<exists>rest'. events (snd (process_file scenario_world ''clip.MP4'' init)) =
                 [Print ProcessingVideo, VideoCapture 0 ''clip.MP4'', CapGetFrameCount 0,
                  CapSetPosFrames 0 50, CapRead 0, CapRelease 0,
                  Classify \<lparr>mode = ''RGB'', bands = [[[30, 120, 220], [200, 180, 140]]]\<rparr>] @ rest')"
proof -
  have h: "endswith (lower ''clip.MP4'') [''.mp4'', ''.mov'', ''.mkv'']"
    by code_simp
  have n: "frame_count scenario_world ''clip.MP4'' = 100"
    by (simp add: scenario_world_def)
  have x: "fst (extract_middle_frame scenario_world ''clip.MP4'' (emit (Print ProcessingVideo) init)) =
             Inr \<lparr>mode = ''RGB'', bands = [[[30, 120, 220], [200, 180, 140]]]\<rparr>"
    by (simp add: extract_middle_frame_result scenario_world_def clip_frame_def
        Image_fromarray_def cvtColor_BGR2RGB_def)
  have i: "events init = []" "next_cap init = 0"
    by (simp_all add: init_def)
  from video_path_extracts_then_classifies [OF h, of scenario_world init] n x i
  show ?thesis using h by auto
qed

text \<open>
  Claim C3. A path whose lowercased form ends in none of the six extensions makes
  \<open>process_file\<close> print the unsupported notice and return normally: that notice is the only
  event, so nothing is classified, no capture is opened and no request is sent.
\<close>

theorem unsupported_path_is_a_no_op:
  assumes "\<not> endswith (lower path) [''.jpg'', ''.jpeg'', ''.png'']"
      and "\<not> endswith (lower path) [''.mp4'', ''.mov'', ''.mkv'']"
  shows "fst (process_file w path s) = Inr ()
       \<and> events (snd (process_file w path s)) = events s @ [Print UnsupportedFile]
       \<and> caps (snd (process_file w path s)) = caps s"
  using assms by (simp add: process_file_unsupported events_emit caps_emit)

theorem unsupported_path_is_a_no_op_witness:
  "\<not> endswith (lower ''doc.pdf'') [''.jpg'', ''.jpeg'', ''.png'']
   \<and> \<not> endswith (lower ''doc.pdf'') [''.mp4'', ''.mov'', ''.mkv'']
   \<and> fst (process_file scenario_world ''doc.pdf'' init) = Inr ()
   \<and> events (snd (process_file scenario_world ''doc.pdf'' init)) = [Print UnsupportedFile]"
proof -
  have h1: "\<not> endswith (lower ''doc.pdf'') [''.jpg'', ''.jpeg'', ''.png'']"
    by code_simp
  have h2: "\<not> endswith (lower ''doc.pdf'') [''.mp4'', ''.mov'', ''.mkv'']"
    by code_simp
  have i: "events init = []"
    by (simp add: init_def)
  from unsupported_path_is_a_no_op [OF h1 h2, of scenario_world init] i
  show ?thesis using h1 h2 by simp
qed

section \<open>The middle frame\<close>

text \<open>
  Claim C4, as the code has it. Whatever count \<open>N\<close> the container reports,
  \<open>extract_middle_frame\<close> seeks to index \<open>N div 2\<close> (the floor of \<open>N/2\<close>) and then reads,
  and it raises \<open>FrameExtractionError\<close> exactly when that read reports failure; otherwise it
  returns the converted frame. The count itself is never tested: with \<open>N = 0\<close> the seek
  goes to index 0 and the call raises only if the read there fails.

  The claim as written also promises the error whenever \<open>N = 0\<close>. A stream whose header
  carries no frame count reports 0 and still decodes its first frame, and the call returns
  that frame:
\<close>

theorem zero_count_still_returns_frame:
  "frame_count headerless_world ''stream.mkv'' = 0
   \<and> fst (extract_middle_frame headerless_world ''stream.mkv'' init) =
       Inr \<lparr>mode = ''RGB'', bands = [[[30, 120, 220], [200, 180, 140]]]\<rparr>"
  by (simp add: extract_middle_frame_result headerless_world_def scenario_world_def
      clip_frame_def Image_fromarray_def cvtColor_BGR2RGB_def)

text \<open>Claim C4 as amended: the seek index, and the error exactly on a failed read.\<close>

theorem seeks_to_half_and_raises_on_failed_read:
  "events (snd (extract_middle_frame w p s)) =
     events s @ [VideoCapture (next_cap s) p, CapGetFrameCount (next_cap s),
                 CapSetPosFrames (next_cap s) (frame_count w p div 2),
                 CapRead (next_cap s), CapRelease (next_cap s)]
   \<and> (case decode w p (frame_count w p div 2) of
        None \<Rightarrow> fst (extract_middle_frame w p s) = Inl FrameExtractionError
      | Some fr \<Rightarrow> fst (extract_middle_frame w p s) = Inr (Image_fromarray (cvtColor_BGR2RGB fr)))"
  by (simp add: extract_middle_frame_events extract_middle_frame_result split: option.splits)

theorem seeks_to_half_and_raises_on_failed_read_witness:
  "events (snd (extract_middle_frame scenario_world ''clip.MP4'' init)) =
     [VideoCapture 0 ''clip.MP4'', CapGetFrameCount 0, CapSetPosFrames 0 50, CapRead 0,
      CapRelease 0]
   \<and> decode scenario_world ''gone.mp4'' (frame_count scenario_world ''gone.mp4'' div 2) = None
   \<and> fst (extract_middle_frame scenario_world ''gone.mp4'' init) = Inl FrameExtractionError"
proof -
  have n: "frame_count scenario_world ''clip.MP4'' = 100" "events init = []" "next_cap init = 0"
    by (simp_all add: scenario_world_def init_def)
  have d: "decode scenario_world ''gone.mp4'' (frame_count scenario_world ''gone.mp4'' div 2) = None"
    by (simp add: scenario_world_def)
  from seeks_to_half_and_raises_on_failed_read [of scenario_world "''clip.MP4''" init]
       seeks_to_half_and_raises_on_failed_read [of scenario_world "''gone.mp4''" init]
  show ?thesis using n d by simp
qed

text \<open>
  Claim C5. When the read at the middle index succeeds, \<open>extract_middle_frame\<close> returns an
  image of mode RGB with the dimensions of the decoded frame, and each of its pixels is
  \<open>[r, g, b]\<close> where the decoder's pixel at the same row and column is \<open>(b, g, r)\<close>.
\<close>

theorem returned_frame_is_rgb_permutation:
  assumes "decode w p (frame_count w p div 2) = Some fr"
  shows "\<exists>img. fst (extract_middle_frame w p s) = Inr img
             \<and> mode img = ''RGB''
             \<and> length (bands img) = length fr
             \<and> (\<forall>i<length fr. length (bands img ! i) = length (fr ! i)
                  \<and> (\<forall>j<length (fr ! i). \<forall>b g r.
                        fr ! i ! j = (b, g, r) \<longrightarrow> bands img ! i ! j = [r, g, b]))"
  using assms
  by (simp add: extract_middle_frame_result Image_fromarray_def cvtColor_BGR2RGB_def)

theorem returned_frame_is_rgb_permutation_witness:
  "decode scenario_world ''clip.MP4'' (frame_count scenario_world ''clip.MP4'' div 2) = Some clip_frame
   \<and> clip_frame ! 0 ! 1 = (140, 180, 200)
   \<and> (\<exists>img. fst (extract_middle_frame scenario_world ''clip.MP4'' init) = Inr img
          \<and> mode img = ''RGB'' \<and> bands img ! 0 ! 1 = [200, 180, 140])"
proof -
  have d: "decode scenario_world ''clip.MP4'' (frame_count scenario_world ''clip.MP4'' div 2) = Some clip_frame"
    by (simp add: scenario_world_def)
  have f: "clip_frame ! 0 ! 1 = (140, 180, 200)" "length clip_frame = 1" "length (clip_frame ! 0) = 2"
    by (simp_all add: clip_frame_def)
  from returned_frame_is_rgb_permutation [OF d, of init] obtain img where
    img: "fst (extract_middle_frame scenario_world ''clip.MP4'' init) = Inr img"
         "mode img = ''RGB''"
         "\<forall>i<length clip_frame. length (bands img ! i) = length (clip_frame ! i)
                  \<and> (\<forall>j<length (clip_frame ! i). \<forall>b g r.
                        clip_frame ! i ! j = (b, g, r) \<longrightarrow> bands img ! i ! j = [r, g, b])"
    by blast
  from img(3) f have "bands img ! 0 ! 1 = [200, 180, 140]"
    by simp
  with img d f show ?thesis by blast
qed

text \<open>
  Claim C9. \<open>extract_middle_frame\<close> acquires one capture handle at entry, and in the state it
  leaves behind that handle is closed, whether it returns a frame or raises: the store of
  open captures is the one it found with that handle removed, so no handle is open that
  was not open before, and the release is the last event of the call and happens once.
\<close>

theorem capture_released_before_exit:
  "fst (cv2_VideoCapture p s) = next_cap s
   \<and> caps (snd (cv2_VideoCapture p s)) (next_cap s) \<noteq> None
   \<and> caps (snd (extract_middle_frame w p s)) (next_cap s) = None
   \<and> caps (snd (extract_middle_frame w p s)) = (caps s)(next_cap s := None)
   \<and> dom (caps (snd (extract_middle_frame w p s))) \<subseteq> dom (caps s)
   \<and> (\<exists>mid. events (snd (extract_middle_frame w p s)) =
         events s @ VideoCapture (next_cap s) p # mid @ [CapRelease (next_cap s)]
         \<and> CapRelease (next_cap s) \<notin> set mid)"
  by (auto simp add: extract_middle_frame_events extract_middle_frame_caps
      cv2_VideoCapture_def Let_def)

theorem capture_released_before_exit_witness:
  "fst (extract_middle_frame scenario_world ''clip.MP4'' init) =
     Inr \<lparr>mode = ''RGB'', bands = [[[30, 120, 220], [200, 180, 140]]]\<rparr>
   \<and> caps (snd (extract_middle_frame scenario_world ''clip.MP4'' init)) 0 = None
   \<and> fst (extract_middle_frame scenario_world ''gone.mp4'' init) = Inl FrameExtractionError
   \<and> caps (snd (extract_middle_frame scenario_world ''gone.mp4'' init)) 0 = None
   \<and> dom (caps (snd (extract_middle_frame scenario_world ''gone.mp4'' init))) = {}"
proof -
  have r: "fst (extract_middle_frame scenario_world ''clip.MP4'' init) =
             Inr \<lparr>mode = ''RGB'', bands = [[[30, 120, 220], [200, 180, 140]]]\<rparr>"
          "fst (extract_middle_frame scenario_world ''gone.mp4'' init) = Inl FrameExtractionError"
    by (simp_all add: extract_middle_frame_result scenario_world_def clip_frame_def
        Image_fromarray_def cvtColor_BGR2RGB_def)
  have i: "next_cap init = 0" "dom (caps init) = {}"
    by (simp_all add: init_def)
  from capture_released_before_exit [of "''clip.MP4''" init scenario_world]
       capture_released_before_exit [of "''gone.mp4''" init scenario_world]
  show ?thesis using r i by simp
qed

lemma response_text_nova:
  "response_text (nova_response (t # ts) stop usage) = Inr (JStr t)"
  by (simp add: response_text_def nova_response_def and_then_def)

lemma prompts_distinct: "caption_prompt theme \<noteq> hashtags_prompt theme"
  by (simp add: caption_prompt_def hashtags_prompt_def)

section \<open>Captions and hashtags\<close>

text \<open>
  Claim C7. For every theme, \<open>generate_caption_and_hashtags\<close> builds two prompts that
  differ and that both carry the theme verbatim: one asks for three captions, labelled
  Aesthetic, Funny and Influencer style, each under 12 words; the other asks for 15
  hashtags, lowercase, without spaces, comma separated. It sends one request per prompt,
  the caption prompt first. When each request is answered by a message with at least one
  text segment, it returns the pair of the first segment of the first response and the
  first segment of the second.
\<close>

theorem two_prompts_two_requests_first_segments:
  assumes "invoke w (nova_request (caption_prompt theme)) = Inr (nova_response (c # cs) stop1 usage1)"
      and "invoke w (nova_request (hashtags_prompt theme)) = Inr (nova_response (h # hs) stop2 usage2)"
  shows "caption_prompt theme \<noteq> hashtags_prompt theme
       \<and> caption_prompt theme =
           ''\<newline>Generate 3 Instagram captions for: '' @ theme @
           ''\<newline>\<newline>1. Aesthetic (under 12 words)\<newline>2. Funny (under 12 words)\<newline>3. Influencer style (under 12 words)\<newline>''
       \<and> hashtags_prompt theme =
           ''\<newline>Generate 15 Instagram hashtags for '' @ theme @
           ''.\<newline>Rules:\<newline>- lowercase\<newline>- no spaces\<newline>- comma separated\<newline>''
       \<and> events (snd (generate_caption_and_hashtags w theme s)) =
           events s @ [InvokeModel (nova_request (caption_prompt theme)),
                       InvokeModel (nova_request (hashtags_prompt theme))]
       \<and> fst (generate_caption_and_hashtags w theme s) = Inr (JStr c, JStr h)"
proof -
  have a: "answer w (caption_prompt theme) = Inr (JStr c)"
          "answer w (hashtags_prompt theme) = Inr (JStr h)"
    using assms by (simp_all add: answer_def and_then_def response_text_nova)
  show ?thesis
    using a prompts_distinct [of theme]
    by (simp add: generate_events generate_result caption_prompt_def hashtags_prompt_def)
qed

theorem two_prompts_two_requests_first_segments_witness:
  "invoke scenario_world (nova_request (caption_prompt ''seashore'')) =
     Inr (nova_response [''1. Salt air, soft light.''] ''end_turn'' JNull)
   \<and> invoke scenario_world (nova_request (hashtags_prompt ''seashore'')) =
     Inr (nova_response [''#seashore,#waves'', ''extra''] ''end_turn'' JNull)
   \<and> events (snd (generate_caption_and_hashtags scenario_world ''seashore'' init)) =
       [InvokeModel (nova_request (caption_prompt ''seashore'')),
        InvokeModel (nova_request (hashtags_prompt ''seashore''))]
   \<and> fst (generate_caption_and_hashtags scenario_world ''seashore'' init) =
       Inr (JStr ''1. Salt air, soft light.'', JStr ''#seashore,#waves'')"
proof -
  have h1: "invoke scenario_world (nova_request (caption_prompt ''seashore'')) =
              Inr (nova_response [''1. Salt air, soft light.''] ''end_turn'' JNull)"
    by (simp add: scenario_world_def)
  have ne: "nova_request (hashtags_prompt ''seashore'') \<noteq> nova_request (caption_prompt ''seashore'')"
    by (simp add: nova_request_def request_body_def caption_prompt_def hashtags_prompt_def)
  have h2: "invoke scenario_world (nova_request (hashtags_prompt ''seashore'')) =
              Inr (nova_response [''#seashore,#waves'', ''extra''] ''end_turn'' JNull)"
    using ne by (simp add: scenario_world_def)
  have i: "events init = []"
    by (simp add: init_def)
  from two_prompts_two_requests_first_segments [OF h1 h2, of init] i
  show ?thesis using h1 h2 by simp
qed

lemma report_events_failed_request:
  assumes "InvokeModel req \<in> set (report_events w label)" and "invoke w req = Inl e"
  shows "report_outcome w label = Inl e"
  using assms
  by (auto simp add: report_events_def report_outcome_def answer_def and_then_def
      split: sum.splits)

lemma classify_events_failed_request:
  assumes "InvokeModel req \<in> set (classify_events w img)" and "invoke w req = Inl e"
  shows "classify_outcome w img = Inl e"
  using assms report_events_failed_request [of req w _ e]
  by (auto simp add: classify_events_def classify_outcome_def split: sum.splits)

lemma report_events_theme:
  "Print (DetectedTheme label) \<in> set (report_events w label)"
  by (simp add: report_events_def)

lemma classify_events_before_request:
  assumes "classify_events w img = pre @ InvokeModel req # post"
  shows "\<exists>label. top1 w img = Inr label \<and> Classify img \<in> set pre
               \<and> Print (DetectedTheme label) \<in> set pre"
  using assms
  by (auto simp add: classify_events_def report_events_def Cons_eq_append_conv
      split: sum.splits)

section \<open>The shape of a whole run\<close>

lemma split_after_prefix:
  assumes "xs @ ys = pre @ e # post" and "e \<notin> set xs"
  shows "\<exists>pre'. pre = xs @ pre' \<and> ys = pre' @ e # post"
  using assms
proof (induction xs arbitrary: pre)
  case Nil
  then show ?case by simp
next
  case (Cons x xs)
  from Cons.prems obtain pre1 where p: "pre = x # pre1"
    by (cases pre) auto
  with Cons.prems have "xs @ ys = pre1 @ e # post" "e \<notin> set xs"
    by simp_all
  from Cons.IH [OF this] p show ?case
    by auto
qed

lemma process_file_new:
  "\<exists>pre0 tail. events (snd (process_file w path s)) = events s @ pre0 @ tail
      \<and> \<not> list_ex is_invoke pre0 \<and> \<not> list_ex is_classify pre0
      \<and> (tail = [] \<or> (\<exists>img. tail = classify_events w img
                           \<and> fst (process_file w path s) = classify_outcome w img))"
proof -
  consider (image) "endswith (lower path) [''.jpg'', ''.jpeg'', ''.png'']"
    | (video) "endswith (lower path) [''.mp4'', ''.mov'', ''.mkv'']"
    | (other) "\<not> endswith (lower path) [''.jpg'', ''.jpeg'', ''.png'']"
              "\<not> endswith (lower path) [''.mp4'', ''.mov'', ''.mkv'']"
    by blast
  then show ?thesis
  proof cases
    case image
    let ?pre = "[Print ProcessingImage, ImageOpen path]"
    show ?thesis
    proof (cases "image_open w path")
      case (Inl e)
      with image have "events (snd (process_file w path s)) = events s @ ?pre @ []"
        by (simp add: process_file_image_trace)
      then show ?thesis by (rule_tac x = "?pre" in exI, rule_tac x = "[]" in exI) simp
    next
      case (Inr img)
      with image have "events (snd (process_file w path s)) = events s @ ?pre @ classify_events w img"
        and "fst (process_file w path s) = classify_outcome w img"
        by (simp_all add: process_file_image_trace process_file_image_result)
      then show ?thesis
        by (rule_tac x = "?pre" in exI, rule_tac x = "classify_events w img" in exI) auto
    qed
  next
    case video
    let ?pre = "[Print ProcessingVideo, VideoCapture (next_cap s) path,
                 CapGetFrameCount (next_cap s),
                 CapSetPosFrames (next_cap s) (frame_count w path div 2),
                 CapRead (next_cap s), CapRelease (next_cap s)]"
    show ?thesis
    proof (cases "decode w path (frame_count w path div 2)")
      case None
      with video have "events (snd (process_file w path s)) = events s @ ?pre @ []"
        by (simp add: process_file_video_trace)
      then show ?thesis by (rule_tac x = "?pre" in exI, rule_tac x = "[]" in exI) simp
    next
      case (Some fr)
      let ?img = "Image_fromarray (cvtColor_BGR2RGB fr)"
      from video Some have "events (snd (process_file w path s)) = events s @ ?pre @ classify_events w ?img"
        and "fst (process_file w path s) = classify_outcome w ?img"
        by (simp_all add: process_file_video_trace process_file_video_result)
      then show ?thesis
        by (rule_tac x = "?pre" in exI, rule_tac x = "classify_events w ?img" in exI) auto
    qed
  next
    case other
    then have "events (snd (process_file w path s)) = events s @ [Print UnsupportedFile] @ []"
      by (simp add: process_file_unsupported events_emit)
    then show ?thesis
      by (rule_tac x = "[Print UnsupportedFile]" in exI, rule_tac x = "[]" in exI) simp
  qed
qed

lemma not_invoke_in: "\<not> list_ex is_invoke xs \<Longrightarrow> InvokeModel req \<notin> set xs"
  by (auto simp add: list_ex_iff)

lemma not_classify_in: "\<not> list_ex is_classify xs \<Longrightarrow> Classify img \<notin> set xs"
  by (auto simp add: list_ex_iff)

lemma classify_events_only: 
  "Classify img' \<in> set (classify_events w img) \<Longrightarrow> img' = img"
  using classify_events_shape [of w img] by (auto dest: not_classify_in)

lemma classify_events_theme:
  "top1 w img = Inr label \<Longrightarrow> Print (DetectedTheme label) \<in> set (classify_events w img)"
  by (simp add: classify_events_def report_events_theme)

lemma failed_request_stops_run:
  assumes "InvokeModel req \<in> set (new_events s (snd (process_file w path s)))"
      and "invoke w req = Inl e"
  shows "fst (process_file w path s) = Inl e"
proof -
  obtain pre0 tail where sh:
      "events (snd (process_file w path s)) = events s @ pre0 @ tail"
      "\<not> list_ex is_invoke pre0"
      "tail = [] \<or> (\<exists>img. tail = classify_events w img
                           \<and> fst (process_file w path s) = classify_outcome w img)"
    using process_file_new [of w path s] by blast
  from sh(1) have "new_events s (snd (process_file w path s)) = pre0 @ tail"
    by (simp add: new_events_def)
  with assms(1) not_invoke_in [OF sh(2)] have "InvokeModel req \<in> set tail"
    by simp
  with sh(3) obtain img where "InvokeModel req \<in> set (classify_events w img)"
      "fst (process_file w path s) = classify_outcome w img"
    by auto
  with assms(2) show ?thesis
    by (simp add: classify_events_failed_request)
qed

lemma run_theme_before_request:
  assumes "new_events s (snd (process_file w path s)) = pre @ InvokeModel req # post"
  shows "\<exists>img label. top1 w img = Inr label \<and> Classify img \<in> set pre
            \<and> Print (DetectedTheme label) \<in> set pre"
proof -
  obtain pre0 tail where sh:
      "events (snd (process_file w path s)) = events s @ pre0 @ tail"
      "\<not> list_ex is_invoke pre0"
      "tail = [] \<or> (\<exists>img. tail = classify_events w img
                           \<and> fst (process_file w path s) = classify_outcome w img)"
    using process_file_new [of w path s] by blast
  from sh(1) have "new_events s (snd (process_file w path s)) = pre0 @ tail"
    by (simp add: new_events_def)
  with assms have eq: "pre0 @ tail = pre @ InvokeModel req # post"
    by simp
  have "InvokeModel req \<notin> set pre0"
    by (rule not_invoke_in [OF sh(2)])
  from split_after_prefix [OF eq this] obtain pre' where
    p: "pre = pre0 @ pre'" "tail = pre' @ InvokeModel req # post"
    by blast
  from p(2) have "tail \<noteq> []"
    by simp
  with sh(3) obtain img where "tail = classify_events w img"
    by blast
  with p(2) have "classify_events w img = pre' @ InvokeModel req # post"
    by simp
  from classify_events_before_request [OF this] obtain label where
    "top1 w img = Inr label" "Classify img \<in> set pre'" "Print (DetectedTheme label) \<in> set pre'"
    by blast
  with p(1) show ?thesis
    by (intro exI [of _ img] exI [of _ label]) simp
qed

lemma run_theme_after_classify:
  assumes "Classify img \<in> set (new_events s (snd (process_file w path s)))"
      and "top1 w img = Inr label"
  shows "Print (DetectedTheme label) \<in> set (new_events s (snd (process_file w path s)))"
proof -
  obtain pre0 tail where sh:
      "events (snd (process_file w path s)) = events s @ pre0 @ tail"
      "\<not> list_ex is_classify pre0"
      "tail = [] \<or> (\<exists>img. tail = classify_events w img
                           \<and> fst (process_file w path s) = classify_outcome w img)"
    using process_file_new [of w path s] by blast
  from sh(1) have new: "new_events s (snd (process_file w path s)) = pre0 @ tail"
    by (simp add: new_events_def)
  have "Classify img \<notin> set pre0"
    by (rule not_classify_in [OF sh(2)])
  with assms(1) new have in_tail: "Classify img \<in> set tail"
    by simp
  then have "tail \<noteq> []"
    by auto
  with sh(3) obtain img' where t: "tail = classify_events w img'"
    by blast
  with in_tail have "img = img'"
    by (simp add: classify_events_only)
  with t assms(2) have "Print (DetectedTheme label) \<in> set tail"
    by (simp add: classify_events_theme)
  with new show ?thesis
    by simp
qed

section \<open>Errors and the order of the output\<close>

text \<open>
  Claim C8. No error is caught on the way out of \<open>process_file\<close>. On a video path, an error
  raised by \<open>extract_middle_frame\<close> is the result of \<open>process_file\<close>; on any path, if a
  request sent during the run is answered by an error of the text service, that error is
  the result of \<open>process_file\<close>. The script's entry point calls \<open>process_file\<close> and adds no
  handler, so the error ends the run.
\<close>

theorem extraction_and_remote_errors_propagate:
  "(endswith (lower path) [''.mp4'', ''.mov'', ''.mkv'']
      \<and> fst (extract_middle_frame w path (emit (Print ProcessingVideo) s)) = Inl e1
    \<longrightarrow> fst (process_file w path s) = Inl e1)
   \<and> (InvokeModel req \<in> set (new_events s (snd (process_file w path s)))
      \<and> invoke w req = Inl e2
    \<longrightarrow> fst (process_file w path s) = Inl e2)
   \<and> main w s = process_file w (stdin_line w) (emit Input s)"
proof (intro conjI impI)
  assume a: "endswith (lower path) [''.mp4'', ''.mov'', ''.mkv'']
      \<and> fst (extract_middle_frame w path (emit (Print ProcessingVideo) s)) = Inl e1"
  then show "fst (process_file w path s) = Inl e1"
    by (auto simp add: process_file_video_result extract_middle_frame_result
        split: option.splits)
next
  assume "InvokeModel req \<in> set (new_events s (snd (process_file w path s)))
      \<and> invoke w req = Inl e2"
  then show "fst (process_file w path s) = Inl e2"
    using failed_request_stops_run by blast
next
  show "main w s = process_file w (stdin_line w) (emit Input s)"
    by (simp add: main_def)
qed

theorem extraction_and_remote_errors_propagate_witness:
  "endswith (lower ''gone.mp4'') [''.mp4'', ''.mov'', ''.mkv'']
   \<and> fst (extract_middle_frame scenario_world ''gone.mp4'' (emit (Print ProcessingVideo) init)) =
       Inl FrameExtractionError
   \<and> fst (process_file scenario_world ''gone.mp4'' init) = Inl FrameExtractionError
   \<and> InvokeModel (nova_request (caption_prompt ''seashore''))
       \<in> set (new_events init (snd (process_file offline_world ''clip.MP4'' init)))
   \<and> invoke offline_world (nova_request (caption_prompt ''seashore'')) =
       Inl (RemoteServiceError ''EndpointConnectionError'')
   \<and> fst (process_file offline_world ''clip.MP4'' init) =
       Inl (RemoteServiceError ''EndpointConnectionError'')"
proof -
  have h: "endswith (lower ''gone.mp4'') [''.mp4'', ''.mov'', ''.mkv'']"
    by code_simp
  have x: "fst (extract_middle_frame scenario_world ''gone.mp4'' (emit (Print ProcessingVideo) init)) =
             Inl FrameExtractionError"
    by (simp add: extract_middle_frame_result scenario_world_def)
  have v: "endswith (lower ''clip.MP4'') [''.mp4'', ''.mov'', ''.mkv'']"
    by code_simp
  have m: "InvokeModel (nova_request (caption_prompt ''seashore''))
             \<in> set (new_events init (snd (process_file offline_world ''clip.MP4'' init)))"
    by (simp add: new_events_def process_file_video_trace [OF v] offline_world_def
        scenario_world_def classify_events_def report_events_def top1_def and_then_def)
  have r: "invoke offline_world (nova_request (caption_prompt ''seashore'')) =
             Inl (RemoteServiceError ''EndpointConnectionError'')"
    by (simp add: offline_world_def)
  from extraction_and_remote_errors_propagate
         [of "''gone.mp4''" scenario_world init FrameExtractionError]
       extraction_and_remote_errors_propagate
         [of "''clip.MP4''" offline_world init _ "nova_request (caption_prompt ''seashore'')"
             "RemoteServiceError ''EndpointConnectionError''"]
  show ?thesis using h x m r by blast
qed

text \<open>
  Claim C10. In every run of \<open>process_file\<close>: once an image has been classified and the
  classifier returned a label, that label's theme line is printed; every request to the text
  service comes after the classification and after the theme line of the label it returned;
  and when a request is answered by an error, the run ends with that error while the theme
  line is already part of the output.
\<close>

theorem theme_printed_before_requests:
  "(\<forall>img label. Classify img \<in> set (new_events s (snd (process_file w path s)))
        \<and> top1 w img = Inr label
      \<longrightarrow> Print (DetectedTheme label) \<in> set (new_events s (snd (process_file w path s))))
   \<and> (\<forall>pre req post. new_events s (snd (process_file w path s)) = pre @ InvokeModel req # post
      \<longrightarrow> (\<exists>img label. top1 w img = Inr label \<and> Classify img \<in> set pre
                \<and> Print (DetectedTheme label) \<in> set pre))
   \<and> (\<forall>req e. InvokeModel req \<in> set (new_events s (snd (process_file w path s)))
        \<and> invoke w req = Inl e
      \<longrightarrow> fst (process_file w path s) = Inl e
          \<and> (\<exists>label. Print (DetectedTheme label) \<in> set (new_events s (snd (process_file w path s)))))"
proof (intro conjI allI impI)
  fix img label
  assume "Classify img \<in> set (new_events s (snd (process_file w path s)))
        \<and> top1 w img = Inr label"
  then show "Print (DetectedTheme label) \<in> set (new_events s (snd (process_file w path s)))"
    using run_theme_after_classify by blast
next
  fix pre req post
  assume "new_events s (snd (process_file w path s)) = pre @ InvokeModel req # post"
  then show "\<exists>img label. top1 w img = Inr label \<and> Classify img \<in> set pre
                \<and> Print (DetectedTheme label) \<in> set pre"
    by (rule run_theme_before_request)
next
  fix req e
  assume a: "InvokeModel req \<in> set (new_events s (snd (process_file w path s)))
        \<and> invoke w req = Inl e"
  then show "fst (process_file w path s) = Inl e"
    using failed_request_stops_run by blast
next
  fix req e
  assume a: "InvokeModel req \<in> set (new_events s (snd (process_file w path s)))
        \<and> invoke w req = Inl e"
  then obtain pre post where
    d: "new_events s (snd (process_file w path s)) = pre @ InvokeModel req # post"
    using split_list [of "InvokeModel req"] by blast
  from run_theme_before_request [OF d] obtain label where
    "Print (DetectedTheme label) \<in> set pre"
    by blast
  with d have "Print (DetectedTheme label) \<in> set (new_events s (snd (process_file w path s)))"
    by simp
  then show "\<exists>label. Print (DetectedTheme label) \<in> set (new_events s (snd (process_file w path s)))"
    by (rule exI)
qed

theorem theme_printed_before_requests_witness:
  "new_events init (snd (process_file offline_world ''beach.jpg'' init)) =
     [Print ProcessingImage, ImageOpen ''beach.jpg'', Classify beach_img,
      Print (DetectedTheme ''seashore'')] @
     InvokeModel (nova_request (caption_prompt ''seashore'')) # []
   \<and> top1 offline_world beach_img = Inr ''seashore''
   \<and> invoke offline_world (nova_request (caption_prompt ''seashore'')) =
       Inl (RemoteServiceError ''EndpointConnectionError'')
   \<and> fst (process_file offline_world ''beach.jpg'' init) =
       Inl (RemoteServiceError ''EndpointConnectionError'')
   \<and> (\<exists>label. Print (DetectedTheme label)
         \<in> set (new_events init (snd (process_file offline_world ''beach.jpg'' init))))"
proof -
  have h: "endswith (lower ''beach.jpg'') [''.jpg'', ''.jpeg'', ''.png'']"
    by code_simp
  have t: "top1 offline_world beach_img = Inr ''seashore''"
    by (simp add: top1_def and_then_def offline_world_def scenario_world_def)
  have r: "invoke offline_world (nova_request (caption_prompt ''seashore'')) =
             Inl (RemoteServiceError ''EndpointConnectionError'')"
    by (simp add: offline_world_def)
  have ce: "classify_events offline_world beach_img =
              [Classify beach_img, Print (DetectedTheme ''seashore''),
               InvokeModel (nova_request (caption_prompt ''seashore''))]"
    by (simp add: classify_events_def t report_events_def answer_def r and_then_def)
  have io: "image_open offline_world ''beach.jpg'' = Inr beach_img"
    by (simp add: offline_world_def scenario_world_def)
  have n: "new_events init (snd (process_file offline_world ''beach.jpg'' init)) =
     [Print ProcessingImage, ImageOpen ''beach.jpg'', Classify beach_img,
      Print (DetectedTheme ''seashore'')] @
     InvokeModel (nova_request (caption_prompt ''seashore'')) # []"
    by (simp add: new_events_def process_file_image_trace [OF h] io ce init_def)
  have m: "InvokeModel (nova_request (caption_prompt ''seashore''))
             \<in> set (new_events init (snd (process_file offline_world ''beach.jpg'' init)))"
    by (simp add: n)
  from theme_printed_before_requests [of init offline_world "''beach.jpg''"] m r
  have "fst (process_file offline_world ''beach.jpg'' init) =
          Inl (RemoteServiceError ''EndpointConnectionError'')
        \<and> (\<exists>label. Print (DetectedTheme label)
              \<in> set (new_events init (snd (process_file offline_world ''beach.jpg'' init))))"
    by blast
  with n t r show ?thesis
    by blast
qed

section \<open>The frame handed to the classifier\<close>

text \<open>
  Claim C6 says that in both accepted branches the frame handed to \<open>classify_image\<close> has its
  channels normalised to RGB. The video branch converts (claims C2 and C5: what it classifies
  is the RGB image \<open>extract_middle_frame\<close> built). The image branch hands over whatever
  \<open>Image.open\<close> produced, with no conversion: for a JPEG stored in CMYK the classifier
  receives the image in mode CMYK, as loaded.
\<close>

theorem cmyk_image_reaches_classifier_unconverted:
  "endswith (lower ''poster.jpg'') [''.jpg'', ''.jpeg'', ''.png'']
   \<and> image_open cmyk_world ''poster.jpg'' = Inr cmyk_img
   \<and> mode cmyk_img = ''CMYK''
   \<and> take 3 (events (snd (process_file cmyk_world ''poster.jpg'' init))) =
       [Print ProcessingImage, ImageOpen ''poster.jpg'', Classify cmyk_img]"
proof -
  have h: "endswith (lower ''poster.jpg'') [''.jpg'', ''.jpeg'', ''.png'']"
    by code_simp
  have o: "image_open cmyk_world ''poster.jpg'' = Inr cmyk_img"
    by (simp add: cmyk_world_def)
  have m: "mode cmyk_img = ''CMYK''"
    by (simp add: cmyk_img_def)
  have e: "take 3 (events (snd (process_file cmyk_world ''poster.jpg'' init))) =
             [Print ProcessingImage, ImageOpen ''poster.jpg'', Classify cmyk_img]"
    by (simp add: process_file_image_trace [OF h] o classify_events_def init_def)
  from h o m e show ?thesis
    by simp
qed

end
